theory Spec2Isabelle
  imports Main "HOL-Library.Sublist"
begin

section \<open>The storefront server (server.js)\<close>

text \<open>
  The server has three request handlers of interest: the health check, the creation of a
  checkout session with the payment provider, and the webhook that receives the provider's
  events. Each handler is modelled as a function from the process environment and the
  request to what the handler does: the HTTP response, the console lines and, for the
  checkout handler, the calls made to the provider. The provider's SDK
  (\<open>stripe.checkout.sessions.create\<close>, \<open>stripe.webhooks.constructEvent\<close>) is not part
  of the repository and is a parameter of the handlers. A handler is modelled from the
  point where Express calls it, with \<open>req.body\<close> as the middleware registered before it
  left it; for the webhook route that middleware is modelled as well.

  JavaScript strings are modelled as \<^typ>\<open>string\<close>; the few characters outside ASCII that
  the source uses are written as their UTF-8 bytes.
\<close>

subsection \<open>Process environment\<close>

text \<open>
  \<open>process.env.X\<close> is either \<open>undefined\<close> (\<^term>\<open>None\<close>) or a string. The source tests
  the variables for truthiness: \<open>undefined\<close> and the empty string are falsy.
\<close>

record env =
  STRIPE_SECRET_KEY :: "string option"
  STRIPE_WEBHOOK_SECRET :: "string option"
  RAILWAY_PUBLIC_DOMAIN :: "string option"
  env_PORT :: "string option"

fun truthy :: "string option \<Rightarrow> bool" where
  "truthy None = False"
| "truthy (Some s) = (s \<noteq> [])"

text \<open>\<open>const PORT = process.env.PORT || 3000\<close>, as it is rendered inside a template literal.\<close>

definition PORT :: "env \<Rightarrow> string" where
  "PORT e = (case env_PORT e of None \<Rightarrow> ''3000'' | Some p \<Rightarrow> (if p = [] then ''3000'' else p))"

subsection \<open>JSON values and HTTP responses\<close>

datatype json =
    JNull
  | JBool bool
  | JNum int
  | JString string
  | JArray "json list"
  | JObject "(string \<times> json) list"

datatype body = JsonBody json | TextBody string

record response =
  status :: nat
  body :: body

text \<open>\<open>String(n)\<close> for a status code.\<close>

fun string_of_nat :: "nat \<Rightarrow> string" where
  "string_of_nat n =
     (if n < 10 then [char_of (48 + n)]
      else string_of_nat (n div 10) @ [char_of (48 + n mod 10)])"

declare string_of_nat.simps [simp del]

text \<open>
  The response methods of Express that the handlers use. \<open>res.json(v)\<close> sends \<open>v\<close> with the
  status set so far (200 unless \<open>res.status\<close> changed it). \<open>res.sendStatus(c)\<close> sets the
  status and sends the registered status message of the code as a text body (the code
  itself, as a string, when there is none).
\<close>

definition res_json :: "json \<Rightarrow> response" where
  "res_json v = \<lparr>status = 200, body = JsonBody v\<rparr>"

definition res_status_json :: "nat \<Rightarrow> json \<Rightarrow> response" where
  "res_status_json c v = \<lparr>status = c, body = JsonBody v\<rparr>"

definition status_message :: "nat \<Rightarrow> string option" where
  "status_message c =
     (if c = 200 then Some ''OK''
      else if c = 400 then Some ''Bad Request''
      else if c = 500 then Some ''Internal Server Error''
      else None)"

definition res_sendStatus :: "nat \<Rightarrow> response" where
  "res_sendStatus c =
     \<lparr>status = c,
      body = TextBody (case status_message c of Some m \<Rightarrow> m | None \<Rightarrow> string_of_nat c)\<rparr>"

text \<open>The field of a JSON object body; \<^term>\<open>None\<close> when the body has no such field.\<close>

fun body_field :: "response \<Rightarrow> string \<Rightarrow> json option" where
  "body_field r k = (case body r of JsonBody (JObject fs) \<Rightarrow> map_of fs k | _ \<Rightarrow> None)"

subsection \<open>Console lines\<close>

text \<open>One constructor for each \<open>console.log\<close> / \<open>console.error\<close> call of the handlers,
  with the values the call prints.\<close>

datatype console_line =
    Log_checkout_session_created string
  | Error_stripe_error string
  | Log_webhook_secret_not_configured
  | Log_signature_verification_failed string
  | Log_payment_successful "json option" "json option" "json option"
  | Log_payment_intent_succeeded
  | Log_unhandled_event_type string

subsection \<open>Health check\<close>

definition fire :: string where
  "fire = [CHR 0xF0, CHR 0x9F, CHR 0x94, CHR 0xA5]"

definition health :: "env \<Rightarrow> response" where
  "health e =
     res_json (JObject
       [(''status'', JString (''Server is running! '' @ fire)),
        (''stripe'', JString (if truthy (STRIPE_SECRET_KEY e) then ''configured'' else ''missing''))])"

subsection \<open>Creating a checkout session\<close>

text \<open>The order request is the destructured request body \<open>{ product, size, price }\<close>.\<close>

record order_request =
  product :: string
  size' :: string
  price :: int

text \<open>The request object passed to \<open>stripe.checkout.sessions.create\<close>.\<close>

record product_data =
  name :: string
  description :: string

record price_data =
  currency :: string
  product_data :: product_data
  unit_amount :: int

record line_item =
  price_data :: price_data
  quantity :: nat

record session_request =
  payment_method_types :: "string list"
  mode :: string
  line_items :: "line_item list"
  success_url :: string
  cancel_url :: string
  allowed_countries :: "string list"
  metadata :: "(string \<times> string) list"

text \<open>The provider either throws an error with a message or resolves to a session, of which
  the handler reads the \<open>id\<close>.\<close>

record checkout_session =
  session_id :: string

type_synonym provider = "session_request \<Rightarrow> string + checkout_session"

definition productNames :: "(string \<times> string) list" where
  "productNames =
     [(''karma'', ''The Karma Tee''),
      (''buttercup'', ''The Buttercup''),
      (''zero-dark'', ''Zero Care - Dark''),
      (''zero-light'', ''Zero Care - Light''),
      (''boss'', ''The Boss Move'')]"

text \<open>
  \<open>productNames\<close> is an object literal, so a key that is not its own property is looked up
  on \<open>Object.prototype\<close>. The members found there are functions, which a template literal
  renders as their native-code source text, and the accessor \<open>__proto__\<close>, which yields
  \<open>Object.prototype\<close> itself. Any other key gives \<open>undefined\<close>.
\<close>

definition Object_prototype_functions :: "string list" where
  "Object_prototype_functions =
     [''__defineGetter__'', ''__defineSetter__'', ''hasOwnProperty'', ''__lookupGetter__'',
      ''__lookupSetter__'', ''isPrototypeOf'', ''propertyIsEnumerable'', ''toString'',
      ''valueOf'', ''toLocaleString'']"

definition native_function :: "string \<Rightarrow> string" where
  "native_function f = ''function '' @ f @ ''() { [native code] }''"

text \<open>The text of \<open>${productNames[product]}\<close>.\<close>

definition productNames_text :: "string \<Rightarrow> string" where
  "productNames_text p =
     (case map_of productNames p of
        Some n \<Rightarrow> n
      | None \<Rightarrow>
          (if p = ''constructor'' then native_function ''Object''
           else if p = ''__proto__'' then ''[object Object]''
           else if p \<in> set Object_prototype_functions then native_function p
           else ''undefined''))"

definition YOUR_DOMAIN :: "env \<Rightarrow> string" where
  "YOUR_DOMAIN e =
     (case RAILWAY_PUBLIC_DOMAIN e of
        None \<Rightarrow> ''http://localhost:'' @ PORT e
      | Some d \<Rightarrow> (if d = [] then ''http://localhost:'' @ PORT e else ''https://'' @ d))"

definition sparkles :: string where
  "sparkles = [CHR 0xE2, CHR 0x9C, CHR 0xA8]"

definition session_request :: "env \<Rightarrow> order_request \<Rightarrow> session_request" where
  "session_request e ord =
     \<lparr>payment_method_types = [''card''],
      mode = ''payment'',
      line_items =
        [\<lparr>price_data =
            \<lparr>currency = ''usd'',
             product_data =
               \<lparr>name = productNames_text (product ord) @ '' - Size '' @ size' ord,
                description = sparkles @ '' Pre-Order - Ships March 2026''\<rparr>,
             unit_amount = price ord\<rparr>,
          quantity = 1\<rparr>],
      success_url = YOUR_DOMAIN e @ ''/success.html?session_id={CHECKOUT_SESSION_ID}'',
      cancel_url = YOUR_DOMAIN e @ ''/'',
      allowed_countries = [''US'', ''CA'', ''GB'', ''AU'', ''NZ'', ''IE''],
      metadata =
        [(''product'', product ord),
         (''size'', size' ord),
         (''order_type'', ''pre-order''),
         (''delivery_date'', ''March 2026'')]\<rparr>"

text \<open>What a handler does: the response it sends and the lines it prints. The checkout
  handler also calls the provider.\<close>

record outcome =
  response :: response
  console :: "console_line list"

record checkout_outcome = outcome +
  calls :: "session_request list"

definition not_configured_message :: string where
  "not_configured_message =
     ''Stripe not configured. Add STRIPE_SECRET_KEY to Railway environment variables.''"

definition create_checkout_session :: "provider \<Rightarrow> env \<Rightarrow> order_request \<Rightarrow> checkout_outcome" where
  "create_checkout_session create e ord =
     (if \<not> truthy (STRIPE_SECRET_KEY e) then
        \<lparr>response = res_status_json 500 (JObject [(''error'', JString not_configured_message)]),
         console = [],
         calls = []\<rparr>
      else
        (let req = session_request e ord in
         case create req of
           Inr session \<Rightarrow>
             \<lparr>response = res_json (JObject [(''id'', JString (session_id session))]),
              console = [Log_checkout_session_created (session_id session)],
              calls = [req]\<rparr>
         | Inl message \<Rightarrow>
             \<lparr>response = res_status_json 500 (JObject [(''error'', JString message)]),
              console = [Error_stripe_error message],
              calls = [req]\<rparr>))"

subsection \<open>Webhook\<close>

text \<open>
  The event that \<open>stripe.webhooks.constructEvent\<close> returns is the provider's event object:
  its \<open>type\<close> and the object under \<open>data.object\<close>, of which the handler reads properties
  by name (a property that is not there reads as \<open>undefined\<close>, \<^term>\<open>None\<close>).
  \<open>constructEvent\<close> gets \<open>req.body\<close> as the body-parsing middleware left it, the
  \<open>stripe-signature\<close> header (absent or a string) and the secret; it throws an error with
  a message or returns the event.
\<close>

record event =
  type :: string
  data_object :: "(string \<times> json) list"

type_synonym 'b constructEvent = "'b \<Rightarrow> string option \<Rightarrow> string \<Rightarrow> string + event"

datatype switch_arm =
    Case_checkout_session_completed
  | Case_payment_intent_succeeded
  | Default

record webhook_outcome = outcome +
  arm :: "switch_arm option"

text \<open>The \<open>switch (event.type)\<close>: the arm taken and the line it prints.\<close>

definition switch_event_type :: "event \<Rightarrow> switch_arm \<times> console_line list" where
  "switch_event_type ev =
     (if type ev = ''checkout.session.completed'' then
        (let session = data_object ev in
         (Case_checkout_session_completed,
          [Log_payment_successful (map_of session ''id'') (map_of session ''amount_total'')
             (map_of session ''customer_details'')]))
      else if type ev = ''payment_intent.succeeded'' then
        (Case_payment_intent_succeeded, [Log_payment_intent_succeeded])
      else (Default, [Log_unhandled_event_type (type ev)]))"

definition webhook :: "'b constructEvent \<Rightarrow> env \<Rightarrow> 'b \<Rightarrow> string option \<Rightarrow> webhook_outcome" where
  "webhook constructEvent e req_body sig =
     (let webhookSecret = STRIPE_WEBHOOK_SECRET e in
      if \<not> truthy webhookSecret then
        \<lparr>response = res_sendStatus 200,
         console = [Log_webhook_secret_not_configured],
         arm = None\<rparr>
      else
        (case constructEvent req_body sig (case webhookSecret of Some s \<Rightarrow> s | None \<Rightarrow> []) of
           Inl message \<Rightarrow>
             \<lparr>response = res_sendStatus 400,
              console = [Log_signature_verification_failed message],
              arm = None\<rparr>
         | Inr ev \<Rightarrow>
             \<lparr>response = res_json (JObject [(''received'', JBool True)]),
              console = snd (switch_event_type ev),
              arm = Some (fst (switch_event_type ev))\<rparr>))"

subsection \<open>The webhook route: the body parsers in front of the handler\<close>

text \<open>
  A request to \<open>POST /api/webhook\<close> passes \<open>cors()\<close>, the global \<open>express.json()\<close>,
  \<open>express.static\<close> (which only serves GET and HEAD) and the route's own
  \<open>express.raw({type: 'application/json'})\<close> before the handler runs. Of the request, the
  model keeps the media type of the \<open>Content-Type\<close> header, the raw bytes of the body and
  the \<open>stripe-signature\<close> header; the body is taken as UTF-8 and not compressed, and a
  request without a body as one with an empty body (both leave \<open>req.body = {}\<close>).

  \<open>req.body\<close> is a parsed JSON value or a buffer of raw bytes. Each parser skips a request
  whose body has been parsed already (\<open>req._body\<close>) or whose media type is not its own,
  leaving \<open>{}\<close> when nothing was there. \<open>express.json()\<close> is strict: it reads the body
  (at most 100kb, else error 413), answers \<open>{}\<close> for an empty one, and otherwise wants the
  first character after white space to be \<open>{\<close> or \<open>[\<close> and \<open>JSON.parse\<close> to succeed,
  else it passes an error with status 400 to Express, which answers with that status
  without calling anything further down the chain. \<open>JSON.parse\<close> is a parameter.
\<close>

record webhook_request =
  content_type :: "string option"
  raw_body :: string
  stripe_signature :: "string option"

datatype req_body = Parsed json | Buffer string

definition whitespace :: "char \<Rightarrow> bool" where
  "whitespace c = (c = CHR 0x20 \<or> c = CHR 0x09 \<or> c = CHR 0x0A \<or> c = CHR 0x0D)"

definition firstchar :: "string \<Rightarrow> char option" where
  "firstchar str = (case dropWhile whitespace str of [] \<Rightarrow> None | c # _ \<Rightarrow> Some c)"

definition strict_start :: "string \<Rightarrow> bool" where
  "strict_start str =
     (if firstchar str = Some (CHR ''{'') then True
      else if firstchar str = Some (CHR ''['') then True
      else False)"

text \<open>The result of a parser: the status of the error passed to \<open>next\<close>, or \<open>req.body\<close> and
  \<open>req._body\<close> as it leaves them.\<close>

definition express_json :: "(string \<Rightarrow> json option) \<Rightarrow> webhook_request \<Rightarrow> nat + (req_body \<times> bool)" where
  "express_json JSON_parse req =
     (if content_type req = Some ''application/json'' then
        (if 102400 < length (raw_body req) then Inl 413
         else if raw_body req = [] then Inr (Parsed (JObject []), True)
         else if strict_start (raw_body req) then
           (case JSON_parse (raw_body req) of
              None \<Rightarrow> Inl 400
            | Some v \<Rightarrow> Inr (Parsed v, True))
         else Inl 400)
      else Inr (Parsed (JObject []), False))"

definition express_raw :: "webhook_request \<Rightarrow> req_body \<times> bool \<Rightarrow> nat + (req_body \<times> bool)" where
  "express_raw req st =
     (if snd st then Inr st
      else if content_type req = Some ''application/json'' then
        (if 102400 < length (raw_body req) then Inl 413
         else Inr (Buffer (raw_body req), True))
      else Inr st)"

text \<open>What the route does with a request: Express answers an error of the middleware with
  the error's status, or the handler runs on what the middleware left.\<close>

datatype route_outcome = Error_response nat | Handler webhook_outcome

definition webhook_route ::
    "(string \<Rightarrow> json option) \<Rightarrow> req_body constructEvent \<Rightarrow> env \<Rightarrow> webhook_request \<Rightarrow> route_outcome" where
  "webhook_route JSON_parse constructEvent e req =
     (case express_json JSON_parse req of
        Inl code \<Rightarrow> Error_response code
      | Inr st \<Rightarrow>
          (case express_raw req st of
             Inl code \<Rightarrow> Error_response code
           | Inr st' \<Rightarrow> Handler (webhook constructEvent e (fst st') (stripe_signature req))))"

subsection \<open>Example inputs\<close>

definition env_unconfigured :: env where
  "env_unconfigured =
     \<lparr>STRIPE_SECRET_KEY = None, STRIPE_WEBHOOK_SECRET = None,
      RAILWAY_PUBLIC_DOMAIN = None, env_PORT = None\<rparr>"

definition env_configured :: env where
  "env_configured =
     \<lparr>STRIPE_SECRET_KEY = Some ''sk_test_1'', STRIPE_WEBHOOK_SECRET = Some ''whsec_1'',
      RAILWAY_PUBLIC_DOMAIN = Some ''shop.example.com'', env_PORT = Some ''8080''\<rparr>"

definition env_local :: env where
  "env_local =
     \<lparr>STRIPE_SECRET_KEY = Some ''sk_test_1'', STRIPE_WEBHOOK_SECRET = Some ''whsec_1'',
      RAILWAY_PUBLIC_DOMAIN = None, env_PORT = None\<rparr>"

definition karma_order :: order_request where
  "karma_order = \<lparr>product = ''karma'', size' = ''M'', price = 2500\<rparr>"

definition hoodie_order :: order_request where
  "hoodie_order = \<lparr>product = ''hoodie'', size' = ''XL'', price = - 5\<rparr>"

text \<open>A provider stub that always resolves to the same session.\<close>

definition stub_create :: provider where
  "stub_create req = Inr \<lparr>session_id = ''cs_test_1''\<rparr>"

text \<open>A \<open>constructEvent\<close> stub: the signature must be the secret followed by the body, and
  the body is then the event's type.\<close>

definition stub_constructEvent :: "string constructEvent" where
  "stub_constructEvent payload header secret =
     (if header = Some (secret @ payload) then Inr \<lparr>type = payload, data_object = []\<rparr>
      else Inl ''No signatures found matching the expected signature for payload.'')"

section \<open>Properties of the checkout handler\<close>

text \<open>
  C2. Whatever the order request and whatever the provider would answer, when
  \<open>STRIPE_SECRET_KEY\<close> is not configured (unset or empty) the handler answers with status
  500 and the configuration-error message, and makes no call to the provider.
\<close>

theorem missing_credential_fails_without_call:
  assumes "\<not> truthy (STRIPE_SECRET_KEY e)"
  shows "response (create_checkout_session create e ord) =
           \<lparr>status = 500, body = JsonBody (JObject [(''error'', JString not_configured_message)])\<rparr>
         \<and> calls (create_checkout_session create e ord) = []"
  using assms by (simp add: create_checkout_session_def res_status_json_def)

theorem missing_credential_fails_without_call_witness:
  "\<not> truthy (STRIPE_SECRET_KEY env_unconfigured)
   \<and> status (response (create_checkout_session stub_create env_unconfigured karma_order)) = 500
   \<and> body_field (response (create_checkout_session stub_create env_unconfigured karma_order))
        ''error'' = Some (JString not_configured_message)
   \<and> calls (create_checkout_session stub_create env_unconfigured karma_order) = []"
  using missing_credential_fails_without_call [of env_unconfigured stub_create karma_order]
  by (simp add: env_unconfigured_def)

text \<open>
  C4. For the order \<open>{product: "karma", size: "M", price: 2500}\<close>, with the credential
  configured and the provider resolving to a session, the handler answers 200 with
  \<open>{ id: session.id }\<close>, the id the provider returned; the one request sent to the provider
  has a single line item with \<open>unit_amount\<close> 2500, \<open>currency\<close> "usd" and \<open>quantity\<close> 1, and
  its metadata has \<open>product\<close> "karma" and \<open>size\<close> "M".
\<close>

theorem karma_end_to_end:
  assumes "truthy (STRIPE_SECRET_KEY e)"
    and "create (session_request e \<lparr>product = ''karma'', size' = ''M'', price = 2500\<rparr>) = Inr session"
  shows "response (create_checkout_session create e
             \<lparr>product = ''karma'', size' = ''M'', price = 2500\<rparr>) =
           \<lparr>status = 200, body = JsonBody (JObject [(''id'', JString (session_id session))])\<rparr>
         \<and> (\<exists>req. calls (create_checkout_session create e
               \<lparr>product = ''karma'', size' = ''M'', price = 2500\<rparr>) = [req]
              \<and> map (\<lambda>li. (unit_amount (price_data li), currency (price_data li), quantity li))
                    (line_items req) = [(2500, ''usd'', 1)]
              \<and> map_of (metadata req) ''product'' = Some ''karma''
              \<and> map_of (metadata req) ''size'' = Some ''M'')"
  using assms
  by (simp add: create_checkout_session_def res_json_def Let_def session_request_def)

theorem karma_end_to_end_witness:
  "truthy (STRIPE_SECRET_KEY env_configured)
   \<and> stub_create (session_request env_configured
        \<lparr>product = ''karma'', size' = ''M'', price = 2500\<rparr>) = Inr \<lparr>session_id = ''cs_test_1''\<rparr>
   \<and> response (create_checkout_session stub_create env_configured
        \<lparr>product = ''karma'', size' = ''M'', price = 2500\<rparr>) =
        \<lparr>status = 200, body = JsonBody (JObject [(''id'', JString ''cs_test_1'')])\<rparr>
   \<and> ''cs_test_1'' \<noteq> []"
  using karma_end_to_end [of env_configured stub_create "\<lparr>session_id = ''cs_test_1''\<rparr>"]
  by (simp add: env_configured_def stub_create_def)

text \<open>
  C5. The catalog has the five identifiers karma, buttercup, zero-dark, zero-light and boss.
  For an order whose product is one of them, with any size and a positive price, the
  session request has one line item, whose display name is the catalog's display name
  followed by " - Size " and the size; with the credential configured this request is the
  one the handler sends.
\<close>

theorem catalog_display_name:
  assumes "map_of productNames (product ord) = Some display"
    and "0 < price ord"
  shows "map fst productNames = [''karma'', ''buttercup'', ''zero-dark'', ''zero-light'', ''boss'']
         \<and> map (\<lambda>li. name (product_data (price_data li))) (line_items (session_request e ord)) =
             [display @ '' - Size '' @ size' ord]
         \<and> (truthy (STRIPE_SECRET_KEY e) \<longrightarrow>
              calls (create_checkout_session create e ord) = [session_request e ord])"
proof -
  have keys: "map fst productNames = [''karma'', ''buttercup'', ''zero-dark'', ''zero-light'', ''boss'']"
    by (simp add: productNames_def)
  have shown: "productNames_text (product ord) = display"
    using assms(1) by (simp add: productNames_text_def)
  have item: "map (\<lambda>li. name (product_data (price_data li))) (line_items (session_request e ord)) =
      [display @ '' - Size '' @ size' ord]"
    by (simp add: session_request_def shown)
  have sent: "truthy (STRIPE_SECRET_KEY e) \<longrightarrow>
      calls (create_checkout_session create e ord) = [session_request e ord]"
    by (simp add: create_checkout_session_def Let_def split: sum.split)
  from keys item sent show ?thesis by blast
qed

theorem catalog_display_name_witness:
  "map_of productNames (product \<lparr>product = ''zero-dark'', size' = ''XL'', price = 3000\<rparr>) =
      Some ''Zero Care - Dark''
   \<and> 0 < price \<lparr>product = ''zero-dark'', size' = ''XL'', price = 3000\<rparr>
   \<and> truthy (STRIPE_SECRET_KEY env_configured)
   \<and> map (\<lambda>li. name (product_data (price_data li)))
        (line_items (session_request env_configured
           \<lparr>product = ''zero-dark'', size' = ''XL'', price = 3000\<rparr>)) =
        [''Zero Care - Dark - Size XL'']
   \<and> calls (create_checkout_session stub_create env_configured
        \<lparr>product = ''zero-dark'', size' = ''XL'', price = 3000\<rparr>) =
        [session_request env_configured \<lparr>product = ''zero-dark'', size' = ''XL'', price = 3000\<rparr>]"
  using catalog_display_name
    [of "\<lparr>product = ''zero-dark'', size' = ''XL'', price = 3000\<rparr>" "''Zero Care - Dark''"
        env_configured stub_create]
  by (simp add: productNames_def env_configured_def)

text \<open>
  C7. For every order request, whatever the product string and the integer price: every
  request the handler sends to the provider carries the caller's price unchanged as
  \<open>unit_amount\<close>; once the credential is configured the handler always sends the request
  and its answer depends on the provider's answer alone, so neither the product nor the
  price is validated locally. The display name is the text of the table lookup followed by
  " - Size " and the size; for a product absent from the catalog that text is no catalog
  display name (it is "undefined" unless the key names a member of \<open>Object.prototype\<close>),
  so a malformed display string goes to the provider.
\<close>

theorem price_forwarded_verbatim_without_validation:
  "(\<forall>req \<in> set (calls (create_checkout_session create e ord)).
      map (\<lambda>li. unit_amount (price_data li)) (line_items req) = [price ord]
      \<and> map (\<lambda>li. name (product_data (price_data li))) (line_items req) =
          [productNames_text (product ord) @ '' - Size '' @ size' ord])
   \<and> (truthy (STRIPE_SECRET_KEY e) \<longrightarrow>
        calls (create_checkout_session create e ord) = [session_request e ord]
        \<and> response (create_checkout_session create e ord) =
            (case create (session_request e ord) of
               Inr session \<Rightarrow> res_json (JObject [(''id'', JString (session_id session))])
             | Inl message \<Rightarrow> res_status_json 500 (JObject [(''error'', JString message)])))
   \<and> (map_of productNames (product ord) = None \<longrightarrow>
        productNames_text (product ord) \<notin> snd ` set productNames
        \<and> (product ord \<notin> set (''constructor'' # ''__proto__'' # Object_prototype_functions) \<longrightarrow>
             productNames_text (product ord) = ''undefined''))"
proof -
  have sent: "\<forall>req \<in> set (calls (create_checkout_session create e ord)).
      map (\<lambda>li. unit_amount (price_data li)) (line_items req) = [price ord]
      \<and> map (\<lambda>li. name (product_data (price_data li))) (line_items req) =
          [productNames_text (product ord) @ '' - Size '' @ size' ord]"
    by (simp add: create_checkout_session_def Let_def session_request_def split: sum.split)
  have always: "truthy (STRIPE_SECRET_KEY e) \<longrightarrow>
      calls (create_checkout_session create e ord) = [session_request e ord]
      \<and> response (create_checkout_session create e ord) =
          (case create (session_request e ord) of
             Inr session \<Rightarrow> res_json (JObject [(''id'', JString (session_id session))])
           | Inl message \<Rightarrow> res_status_json 500 (JObject [(''error'', JString message)]))"
    by (simp add: create_checkout_session_def Let_def split: sum.split)
  have absent: "map_of productNames (product ord) = None \<longrightarrow>
      productNames_text (product ord) \<notin> snd ` set productNames
      \<and> (product ord \<notin> set (''constructor'' # ''__proto__'' # Object_prototype_functions) \<longrightarrow>
           productNames_text (product ord) = ''undefined'')"
    by (simp add: productNames_text_def productNames_def native_function_def)
  from sent always absent show ?thesis by blast
qed

theorem price_forwarded_verbatim_without_validation_witness:
  "truthy (STRIPE_SECRET_KEY env_configured)
   \<and> map_of productNames (product hoodie_order) = None
   \<and> product hoodie_order \<notin> set (''constructor'' # ''__proto__'' # Object_prototype_functions)
   \<and> session_request env_configured hoodie_order
        \<in> set (calls (create_checkout_session stub_create env_configured hoodie_order))
   \<and> map (\<lambda>li. unit_amount (price_data li))
        (line_items (session_request env_configured hoodie_order)) = [- 5]
   \<and> map (\<lambda>li. name (product_data (price_data li)))
        (line_items (session_request env_configured hoodie_order)) = [''undefined - Size XL'']
   \<and> response (create_checkout_session stub_create env_configured hoodie_order) =
        \<lparr>status = 200, body = JsonBody (JObject [(''id'', JString ''cs_test_1'')])\<rparr>"
  using price_forwarded_verbatim_without_validation [of stub_create env_configured hoodie_order]
  by (simp add: env_configured_def hoodie_order_def productNames_def
      Object_prototype_functions_def stub_create_def res_json_def)

text \<open>
  C9. For every order request handled with the credential configured, the request sent to
  the provider has as success and cancel URLs the base URL followed by the fixed paths
  \<open>/success.html?session_id={CHECKOUT_SESSION_ID}\<close> and \<open>/\<close>; the success URL contains the
  placeholder \<open>{CHECKOUT_SESSION_ID}\<close>. The base URL is \<open>https://\<close> followed by
  \<open>RAILWAY_PUBLIC_DOMAIN\<close> when that is configured, and \<open>http://localhost:\<close> followed by the
  port otherwise.
\<close>

theorem redirect_urls_from_base_url:
  assumes "truthy (STRIPE_SECRET_KEY e)"
  shows "(\<exists>req. calls (create_checkout_session create e ord) = [req]
            \<and> success_url req = YOUR_DOMAIN e @ ''/success.html?session_id={CHECKOUT_SESSION_ID}''
            \<and> cancel_url req = YOUR_DOMAIN e @ ''/''
            \<and> sublist ''{CHECKOUT_SESSION_ID}'' (success_url req))
         \<and> (\<forall>d. RAILWAY_PUBLIC_DOMAIN e = Some d \<and> d \<noteq> [] \<longrightarrow> YOUR_DOMAIN e = ''https://'' @ d)
         \<and> (\<not> truthy (RAILWAY_PUBLIC_DOMAIN e) \<longrightarrow> YOUR_DOMAIN e = ''http://localhost:'' @ PORT e)"
proof -
  have sent: "calls (create_checkout_session create e ord) = [session_request e ord]"
    using assms by (simp add: create_checkout_session_def Let_def split: sum.split)
  have success: "success_url (session_request e ord) =
      YOUR_DOMAIN e @ ''/success.html?session_id={CHECKOUT_SESSION_ID}''"
    by (simp add: session_request_def)
  have cancel: "cancel_url (session_request e ord) = YOUR_DOMAIN e @ ''/''"
    by (simp add: session_request_def)
  have "success_url (session_request e ord) =
      (YOUR_DOMAIN e @ ''/success.html?session_id='') @ ''{CHECKOUT_SESSION_ID}'' @ []"
    by (simp add: session_request_def)
  then have placeholder: "sublist ''{CHECKOUT_SESSION_ID}'' (success_url (session_request e ord))"
    unfolding sublist_def by blast
  have configured: "\<forall>d. RAILWAY_PUBLIC_DOMAIN e = Some d \<and> d \<noteq> [] \<longrightarrow> YOUR_DOMAIN e = ''https://'' @ d"
    by (simp add: YOUR_DOMAIN_def)
  have fallback: "\<not> truthy (RAILWAY_PUBLIC_DOMAIN e) \<longrightarrow> YOUR_DOMAIN e = ''http://localhost:'' @ PORT e"
    by (cases "RAILWAY_PUBLIC_DOMAIN e") (simp_all add: YOUR_DOMAIN_def)
  from sent success cancel placeholder configured fallback show ?thesis by simp
qed

theorem redirect_urls_from_base_url_witness:
  "truthy (STRIPE_SECRET_KEY env_configured)
   \<and> RAILWAY_PUBLIC_DOMAIN env_configured = Some ''shop.example.com''
   \<and> map success_url (calls (create_checkout_session stub_create env_configured karma_order)) =
        [''https://shop.example.com/success.html?session_id={CHECKOUT_SESSION_ID}'']
   \<and> map cancel_url (calls (create_checkout_session stub_create env_configured karma_order)) =
        [''https://shop.example.com/'']
   \<and> truthy (STRIPE_SECRET_KEY env_local)
   \<and> \<not> truthy (RAILWAY_PUBLIC_DOMAIN env_local)
   \<and> map success_url (calls (create_checkout_session stub_create env_local karma_order)) =
        [''http://localhost:3000/success.html?session_id={CHECKOUT_SESSION_ID}'']
   \<and> map cancel_url (calls (create_checkout_session stub_create env_local karma_order)) =
        [''http://localhost:3000/'']"
  using redirect_urls_from_base_url [of env_configured stub_create karma_order]
    redirect_urls_from_base_url [of env_local stub_create karma_order]
  by (auto simp add: env_configured_def env_local_def PORT_def)

section \<open>Properties of the health check\<close>

text \<open>
  C8, as the code has it. Every health response has status 200 and a JSON object body with
  exactly the two fields \<open>status\<close> and \<open>stripe\<close>, both strings: \<open>stripe\<close> is "configured"
  when the provider credential is configured and "missing" when it is not. There is no
  \<open>stripeConfigured\<close> field and no boolean in the body.
\<close>

theorem health_reports_stripe_as_text:
  "status (health e) = 200
   \<and> body (health e) = JsonBody (JObject
        [(''status'', JString (''Server is running! '' @ fire)),
         (''stripe'', JString (if truthy (STRIPE_SECRET_KEY e) then ''configured'' else ''missing''))])
   \<and> body_field (health e) ''stripeConfigured'' = None"
  by (simp add: health_def res_json_def)

text \<open>
  C8, as the spec has it, asks for a boolean field \<open>stripeConfigured\<close>. With the credential
  configured the body has no such field; what reflects the credential is the string field
  \<open>stripe\<close>.
\<close>

theorem health_stripeConfigured_counterexample:
  "body_field (health env_configured) ''stripeConfigured'' = None
   \<and> body_field (health env_configured) ''stripeConfigured'' \<noteq> Some (JBool True)
   \<and> body_field (health env_configured) ''stripe'' = Some (JString ''configured'')"
  by (simp add: health_def res_json_def env_configured_def)

section \<open>Properties of the webhook\<close>

text \<open>
  C1. With a webhook secret configured, for every request body and signature header for
  which \<open>constructEvent\<close> throws (the signature does not verify against the secret), the
  handler answers with status 400 and enters no arm of the switch on the event type; it
  prints the verification failure and nothing else.
\<close>

theorem signature_mismatch_rejected:
  assumes "STRIPE_WEBHOOK_SECRET e = Some secret" and "secret \<noteq> []"
    and "constructEvent req_body sig secret = Inl message"
  shows "status (response (webhook constructEvent e req_body sig)) = 400
         \<and> arm (webhook constructEvent e req_body sig) = None
         \<and> console (webhook constructEvent e req_body sig) =
             [Log_signature_verification_failed message]"
  using assms by (simp add: webhook_def Let_def res_sendStatus_def)

theorem signature_mismatch_rejected_witness:
  "STRIPE_WEBHOOK_SECRET env_configured = Some ''whsec_1'' \<and> ''whsec_1'' \<noteq> []
   \<and> stub_constructEvent ''payment_intent.succeeded'' (Some ''forged'') ''whsec_1'' =
        Inl ''No signatures found matching the expected signature for payload.''
   \<and> status (response (webhook stub_constructEvent env_configured
        ''payment_intent.succeeded'' (Some ''forged''))) = 400
   \<and> arm (webhook stub_constructEvent env_configured
        ''payment_intent.succeeded'' (Some ''forged'')) = None"
  using signature_mismatch_rejected
    [of env_configured "''whsec_1''" stub_constructEvent "''payment_intent.succeeded''"
        "Some ''forged''" "''No signatures found matching the expected signature for payload.''"]
  by (simp add: env_configured_def stub_constructEvent_def)

text \<open>
  The handler on its own, once Express calls it: when the webhook secret is not configured
  (unset or empty), for every value of \<open>req.body\<close>, every signature header and whatever
  \<open>constructEvent\<close> would do, it answers with status 200, enters no arm of the switch on
  the event type, and prints exactly one line.
\<close>

theorem unconfigured_secret_acknowledges_without_dispatch:
  assumes "\<not> truthy (STRIPE_WEBHOOK_SECRET e)"
  shows "status (response (webhook constructEvent e req_body sig)) = 200
         \<and> arm (webhook constructEvent e req_body sig) = None
         \<and> console (webhook constructEvent e req_body sig) = [Log_webhook_secret_not_configured]"
  using assms by (simp add: webhook_def Let_def res_sendStatus_def)

theorem unconfigured_secret_acknowledges_without_dispatch_witness:
  "\<not> truthy (STRIPE_WEBHOOK_SECRET env_unconfigured)
   \<and> status (response (webhook stub_constructEvent env_unconfigured
        ''checkout.session.completed'' (Some ''checkout.session.completed''))) = 200
   \<and> arm (webhook stub_constructEvent env_unconfigured
        ''checkout.session.completed'' (Some ''checkout.session.completed'')) = None
   \<and> length (console (webhook stub_constructEvent env_unconfigured
        ''checkout.session.completed'' (Some ''checkout.session.completed''))) = 1"
  using unconfigured_secret_acknowledges_without_dispatch
    [of env_unconfigured stub_constructEvent "''checkout.session.completed''"
        "Some ''checkout.session.completed''"]
  by (simp add: env_unconfigured_def)

text \<open>
  C3 asks for a success acknowledgment for every raw request body when the webhook secret
  is not configured. The route does not do that: the global \<open>express.json()\<close> reads the
  body before the route's \<open>express.raw\<close> can, so a body sent as \<open>application/json\<close> that
  is not JSON never reaches the handler. With no secret configured, the body \<open>not json\<close> is
  answered with status 400, whatever \<open>JSON.parse\<close> and \<open>constructEvent\<close> are, and the
  handler's line is not printed.
\<close>

theorem malformed_body_rejected_before_handler:
  "webhook_route JSON_parse constructEvent env_unconfigured
     \<lparr>content_type = Some ''application/json'', raw_body = ''not json'',
      stripe_signature = None\<rparr> = Error_response 400"
  by (simp add: webhook_route_def express_json_def strict_start_def firstchar_def
      whitespace_def)

text \<open>
  The same bytes sent under another media type are skipped by both parsers and reach the
  handler, which acknowledges them.
\<close>

lemma other_media_type_reaches_handler:
  "webhook_route JSON_parse constructEvent env_unconfigured
     \<lparr>content_type = Some ''text/plain'', raw_body = ''not json'',
      stripe_signature = None\<rparr> =
   Handler \<lparr>response = \<lparr>status = 200, body = TextBody ''OK''\<rparr>,
            console = [Log_webhook_secret_not_configured], arm = None\<rparr>"
  by (simp add: webhook_route_def express_json_def express_raw_def webhook_def Let_def
      env_unconfigured_def res_sendStatus_def status_message_def)

text \<open>
  C6. With a webhook secret configured, for every event that \<open>constructEvent\<close> returns, of
  whatever type, the handler answers 200 with \<open>{ received: true }\<close>. The switch takes the
  arm of \<open>checkout.session.completed\<close> or of \<open>payment_intent.succeeded\<close> for these two types
  and the default arm for any other type, and each arm only prints one line.
\<close>

theorem verified_event_always_acknowledged:
  assumes "STRIPE_WEBHOOK_SECRET e = Some secret" and "secret \<noteq> []"
    and "constructEvent req_body sig secret = Inr ev"
  shows "response (webhook constructEvent e req_body sig) =
           \<lparr>status = 200, body = JsonBody (JObject [(''received'', JBool True)])\<rparr>
         \<and> arm (webhook constructEvent e req_body sig) =
             Some (if type ev = ''checkout.session.completed'' then Case_checkout_session_completed
                   else if type ev = ''payment_intent.succeeded'' then Case_payment_intent_succeeded
                   else Default)
         \<and> length (console (webhook constructEvent e req_body sig)) = 1"
  using assms by (simp add: webhook_def Let_def res_json_def switch_event_type_def)

theorem verified_event_always_acknowledged_witness:
  "STRIPE_WEBHOOK_SECRET env_configured = Some ''whsec_1'' \<and> ''whsec_1'' \<noteq> []
   \<and> stub_constructEvent ''customer.created'' (Some ''whsec_1customer.created'') ''whsec_1'' =
        Inr \<lparr>type = ''customer.created'', data_object = []\<rparr>
   \<and> status (response (webhook stub_constructEvent env_configured
        ''customer.created'' (Some ''whsec_1customer.created''))) = 200
   \<and> arm (webhook stub_constructEvent env_configured
        ''customer.created'' (Some ''whsec_1customer.created'')) = Some Default
   \<and> console (webhook stub_constructEvent env_configured
        ''customer.created'' (Some ''whsec_1customer.created'')) =
        [Log_unhandled_event_type ''customer.created'']
   \<and> arm (webhook stub_constructEvent env_configured
        ''checkout.session.completed'' (Some ''whsec_1checkout.session.completed'')) =
        Some Case_checkout_session_completed
   \<and> arm (webhook stub_constructEvent env_configured
        ''payment_intent.succeeded'' (Some ''whsec_1payment_intent.succeeded'')) =
        Some Case_payment_intent_succeeded"
  using verified_event_always_acknowledged
    [of env_configured "''whsec_1''" stub_constructEvent "''customer.created''"
        "Some ''whsec_1customer.created''" "\<lparr>type = ''customer.created'', data_object = []\<rparr>"]
    verified_event_always_acknowledged
    [of env_configured "''whsec_1''" stub_constructEvent "''checkout.session.completed''"
        "Some ''whsec_1checkout.session.completed''"
        "\<lparr>type = ''checkout.session.completed'', data_object = []\<rparr>"]
    verified_event_always_acknowledged
    [of env_configured "''whsec_1''" stub_constructEvent "''payment_intent.succeeded''"
        "Some ''whsec_1payment_intent.succeeded''"
        "\<lparr>type = ''payment_intent.succeeded'', data_object = []\<rparr>"]
  by (simp add: env_configured_def stub_constructEvent_def webhook_def Let_def
      switch_event_type_def)

text \<open>
  C10, as the code has it. The two success acknowledgments of the webhook differ. When the
  secret is not configured the handler calls \<open>res.sendStatus(200)\<close>, which answers 200 with
  the status message "OK" as a text body; for every event that \<open>constructEvent\<close> returns,
  of any type, it answers 200 with the JSON body \<open>{ received: true }\<close>. The bodies are never
  equal, so a caller can tell the two modes apart.
\<close>

theorem acknowledgments_distinguishable:
  "(\<not> truthy (STRIPE_WEBHOOK_SECRET e) \<longrightarrow>
      response (webhook constructEvent e req_body sig) = \<lparr>status = 200, body = TextBody ''OK''\<rparr>)
   \<and> (\<forall>secret ev. STRIPE_WEBHOOK_SECRET e = Some secret \<and> secret \<noteq> []
          \<and> constructEvent req_body sig secret = Inr ev \<longrightarrow>
        response (webhook constructEvent e req_body sig) =
          \<lparr>status = 200, body = JsonBody (JObject [(''received'', JBool True)])\<rparr>)
   \<and> \<lparr>status = 200, body = TextBody ''OK''\<rparr> \<noteq>
       \<lparr>status = 200, body = JsonBody (JObject [(''received'', JBool True)])\<rparr>"
  by (simp add: webhook_def Let_def res_json_def res_sendStatus_def status_message_def)

theorem acknowledgments_distinguishable_witness:
  "\<not> truthy (STRIPE_WEBHOOK_SECRET env_unconfigured)
   \<and> body (response (webhook stub_constructEvent env_unconfigured
        ''customer.created'' (Some ''whsec_1customer.created''))) = TextBody ''OK''
   \<and> STRIPE_WEBHOOK_SECRET env_configured = Some ''whsec_1'' \<and> ''whsec_1'' \<noteq> []
   \<and> stub_constructEvent ''customer.created'' (Some ''whsec_1customer.created'') ''whsec_1'' =
        Inr \<lparr>type = ''customer.created'', data_object = []\<rparr>
   \<and> body (response (webhook stub_constructEvent env_configured
        ''customer.created'' (Some ''whsec_1customer.created''))) =
        JsonBody (JObject [(''received'', JBool True)])"
  using acknowledgments_distinguishable
    [of env_unconfigured stub_constructEvent "''customer.created''"
        "Some ''whsec_1customer.created''"]
    acknowledgments_distinguishable
    [of env_configured stub_constructEvent "''customer.created''"
        "Some ''whsec_1customer.created''"]
  by (simp add: env_unconfigured_def env_configured_def stub_constructEvent_def)

text \<open>
  C10, as stated, says that the body is empty when the secret is not configured. The body
  of that answer is the text "OK".
\<close>

theorem unconfigured_body_empty_counterexample:
  "body (response (webhook stub_constructEvent env_unconfigured
      ''customer.created'' (Some ''whsec_1customer.created''))) = TextBody ''OK''
   \<and> body (response (webhook stub_constructEvent env_unconfigured
      ''customer.created'' (Some ''whsec_1customer.created''))) \<noteq> TextBody []"
  by (simp add: webhook_def Let_def env_unconfigured_def res_sendStatus_def status_message_def)

end
